theory Spec2Isabelle
  imports Complex_Main "HOL-Library.Char_ord" "HOL-Library.List_Lexorder"
    "HOL-Library.Product_Lexorder"
begin

section \<open>Warehouse ledger of \<open>gudang_supabase.py\<close>\<close>

text \<open>
  The program is a Streamlit script over three Supabase tables (\<open>users\<close>, \<open>items\<close>,
  \<open>transactions\<close>). The embedding keeps the tables as lists of rows in insertion order,
  threads them through every helper and submit handler as an explicit state, and turns
  every \<open>st.error\<close> branch and every raised exception into an error value.

  Conventions of the embedding:
  \<^item> \<open>DOUBLE PRECISION\<close> quantities are exact reals; the nullable \<open>quantity\<close> column is a
    \<open>real option\<close>, read through \<open>or0\<close> as the source reads it with \<open>... or 0\<close>;
  \<^item> \<open>datetime.now()\<close> and \<open>random.randint\<close> are read from an environment: the \<open>k\<close>-th
    call returns \<open>clock e k\<close> (resp. \<open>rand e k\<close>), and the state counts the calls;
  \<^item> a timestamp column holds the \<open>datetime\<close> value whose \<open>isoformat()\<close> the source stores;
  \<^item> \<open>select(...).eq(...).limit(1)\<close> returns the first matching row of the table.
\<close>

subsection \<open>Dates, timestamps and formatting\<close>

record date =
  year :: nat
  month :: nat
  day :: nat

record datetime =
  dt_date :: date
  hour :: nat
  minute :: nat
  second :: nat

definition digit_char :: "nat \<Rightarrow> char" where
  "digit_char n = char_of (48 + n mod 10)"

text \<open>\<open>pad2\<close> and \<open>pad4\<close> are \<open>%02d\<close> and \<open>%04d\<close> on the ranges strftime uses them.\<close>

definition pad2 :: "nat \<Rightarrow> string" where
  "pad2 n = [digit_char (n div 10), digit_char n]"

definition pad4 :: "nat \<Rightarrow> string" where
  "pad4 n = [digit_char (n div 1000), digit_char (n div 100), digit_char (n div 10), digit_char n]"

text \<open>\<open>str.upper()\<close> and \<open>str.lower()\<close> on ASCII letters.\<close>

definition upper_char :: "char \<Rightarrow> char" where
  "upper_char c = (if CHR ''a'' \<le> c \<and> c \<le> CHR ''z'' then char_of (of_char c - (32::nat)) else c)"

definition lower_char :: "char \<Rightarrow> char" where
  "lower_char c = (if CHR ''A'' \<le> c \<and> c \<le> CHR ''Z'' then char_of (of_char c + (32::nat)) else c)"

definition upper :: "string \<Rightarrow> string" where
  "upper s = map upper_char s"

definition lower :: "string \<Rightarrow> string" where
  "lower s = map lower_char s"

text \<open>
  \<open>str.strip()\<close>: the characters below U+0100 for which Python's \<open>str.isspace()\<close> holds are
  U+0009..U+000D, U+001C..U+0020, U+0085 and U+00A0.
\<close>

definition is_space :: "char \<Rightarrow> bool" where
  "is_space c = ((of_char c :: nat) \<in> set [9, 10, 11, 12, 13, 28, 29, 30, 31, 32, 133, 160])"

definition strip :: "string \<Rightarrow> string" where
  "strip s = rev (dropWhile is_space (rev (dropWhile is_space s)))"

subsection \<open>Tables and state\<close>

record item =
  it_id :: int
  it_name :: string
  it_category :: string
  it_unit :: string
  it_quantity :: "real option"
  it_min_stock :: real
  it_rack_location :: string
  it_expiry_date :: "date option"
  it_created_at :: datetime
  it_updated_at :: datetime

record trx =
  tx_id :: int
  tx_trx_type :: string
  tx_item_id :: "int option"
  tx_name :: string
  tx_quantity :: real
  tx_unit :: string
  tx_requester :: "string option"
  tx_supplier :: "string option"
  tx_note :: string
  tx_bundle_code :: string
  tx_trx_code :: string
  tx_expiry_date :: "date option"
  tx_created_at :: datetime

record user =
  username :: string
  password_hash :: string

record env =
  clock :: "nat \<Rightarrow> datetime"
  rand :: "nat \<Rightarrow> nat"
  to_datetime :: "string \<Rightarrow> date option"

record db =
  items :: "item list"
  transactions :: "trx list"
  users :: "user list"
  items_seq :: int
  transactions_seq :: int
  ticks :: nat
  draws :: nat

text \<open>\<open>datetime.now()\<close>: the next reading of the clock.\<close>

definition now :: "env \<Rightarrow> db \<Rightarrow> datetime \<times> db" where
  "now e s = (clock e (ticks s), s\<lparr>ticks := Suc (ticks s)\<rparr>)"

text \<open>\<open>random.randint(100, 999)\<close>: the next draw, in range.\<close>

definition randint_100_999 :: "env \<Rightarrow> db \<Rightarrow> nat \<times> db" where
  "randint_100_999 e s = (100 + rand e (draws s) mod 900, s\<lparr>draws := Suc (draws s)\<rparr>)"

text \<open>\<open>x or 0\<close> on a nullable number.\<close>

definition or0 :: "real option \<Rightarrow> real" where
  "or0 q = (case q of None \<Rightarrow> 0 | Some x \<Rightarrow> x)"

subsection \<open>Helpers: items and transactions\<close>

definition strftime_Ymd_HMS :: "datetime \<Rightarrow> string" where
  "strftime_Ymd_HMS t =
     pad4 (year (dt_date t)) @ pad2 (month (dt_date t)) @ pad2 (day (dt_date t)) @ ''-'' @
     pad2 (hour t) @ pad2 (minute t) @ pad2 (second t)"

definition generate_trx_code :: "env \<Rightarrow> db \<Rightarrow> string \<Rightarrow> string \<times> db" where
  "generate_trx_code e s trx_type =
     (let (t, s1) = now e s;
          (r, s2) = randint_100_999 e s1
      in (''TRX-'' @ upper trx_type @ ''-'' @ strftime_Ymd_HMS t @ ''-'' @
          [digit_char (r div 100), digit_char (r div 10), digit_char r], s2))"

text \<open>\<open>supabase.table("items").select("*").eq("name", n).eq("unit", u).limit(1)\<close>.\<close>

definition select_item :: "db \<Rightarrow> string \<Rightarrow> string \<Rightarrow> item option" where
  "select_item s n u = find (\<lambda>i. it_name i = n \<and> it_unit i = u) (items s)"

text \<open>\<open>supabase.table("items").update(...).eq("id", i)\<close>: every row with that id.\<close>

definition update_items :: "(item \<Rightarrow> item) \<Rightarrow> int \<Rightarrow> db \<Rightarrow> db" where
  "update_items f i s = s\<lparr>items := map (\<lambda>r. if it_id r = i then f r else r) (items s)\<rparr>"

definition upsert_item ::
  "env \<Rightarrow> db \<Rightarrow> string \<Rightarrow> string \<Rightarrow> string \<Rightarrow> real \<Rightarrow> real \<Rightarrow> string \<Rightarrow> date option \<Rightarrow> int \<times> db" where
  "upsert_item e s name0 category unit quantity min_stock rack_location expiry_date =
     (let name = strip name0;
          (t, s1) = now e s
      in case select_item s1 name unit of
           Some item \<Rightarrow>
             (let existing_qty = or0 (it_quantity item);
                  new_qty = existing_qty + quantity
              in (it_id item,
                  update_items (\<lambda>r. r\<lparr>it_quantity := Some new_qty, it_category := category,
                      it_min_stock := min_stock, it_rack_location := rack_location,
                      it_expiry_date := expiry_date, it_updated_at := t\<rparr>) (it_id item) s1))
         | None \<Rightarrow>
             (items_seq s1,
              s1\<lparr>items := items s1 @
                    [\<lparr>it_id = items_seq s1, it_name = name, it_category = category, it_unit = unit,
                      it_quantity = Some quantity, it_min_stock = min_stock,
                      it_rack_location = rack_location, it_expiry_date = expiry_date,
                      it_created_at = t, it_updated_at = t\<rparr>],
                  items_seq := items_seq s1 + 1\<rparr>))"

datatype out_error = Item_tidak_ditemukan | Stok_tidak_cukup real

definition adjust_item_for_out ::
  "env \<Rightarrow> db \<Rightarrow> string \<Rightarrow> string \<Rightarrow> real \<Rightarrow> (int option \<times> out_error option) \<times> db" where
  "adjust_item_for_out e s name unit quantity =
     (case select_item s name unit of
        None \<Rightarrow> ((None, Some Item_tidak_ditemukan), s)
      | Some item \<Rightarrow>
          (let existing = or0 (it_quantity item)
           in if existing < quantity then ((None, Some (Stok_tidak_cukup existing)), s)
              else (let new_qty = existing - quantity;
                        (t, s1) = now e s
                    in ((Some (it_id item), None),
                        update_items (\<lambda>r. r\<lparr>it_quantity := Some new_qty, it_updated_at := t\<rparr>)
                          (it_id item) s1))))"

definition add_transaction_record ::
  "env \<Rightarrow> db \<Rightarrow> string \<Rightarrow> int option \<Rightarrow> string \<Rightarrow> real \<Rightarrow> string \<Rightarrow> string option \<Rightarrow>
   string option \<Rightarrow> string \<Rightarrow> string \<Rightarrow> string \<Rightarrow> date option \<Rightarrow> db" where
  "add_transaction_record e s trx_type item_id name quantity unit requester supplier note
       bundle_code trx_code expiry_date =
     (let (t, s1) = now e s
      in s1\<lparr>transactions := transactions s1 @
              [\<lparr>tx_id = transactions_seq s1, tx_trx_type = trx_type, tx_item_id = item_id,
                tx_name = name, tx_quantity = quantity, tx_unit = unit,
                tx_requester = requester, tx_supplier = supplier, tx_note = note,
                tx_bundle_code = bundle_code, tx_trx_code = trx_code,
                tx_expiry_date = expiry_date, tx_created_at = t\<rparr>],
            transactions_seq := transactions_seq s1 + 1\<rparr>)"

subsection \<open>Submit handlers: Barang Masuk\<close>

datatype error =
    Nama_jumlah_satuan_harus_diisi
  | Nama_jumlah_satuan_peminta_harus_diisi
  | Tidak_ada_item
  | Nama_peminta_harus_diisi
  | Baris "nat list"
  | Item_tidak_ditemukan_di_inventory
  | Stok_tidak_cukup_diminta "real option" real
  | Adjust_error out_error
  | Transaksi_ditolak "(string \<times> out_error) list"

text \<open>The single-item form, from \<open>if submitted:\<close> on; the result is the \<open>trx_code\<close> shown.\<close>

definition in_single ::
  "env \<Rightarrow> db \<Rightarrow> string \<Rightarrow> string \<Rightarrow> real \<Rightarrow> string \<Rightarrow> real \<Rightarrow> string \<Rightarrow> string \<Rightarrow>
   date option \<Rightarrow> (error + string) \<times> db" where
  "in_single e s name unit qty category min_stock supplier rack_location expiry_date =
     (if name = [] \<or> qty \<le> 0 \<or> unit = [] then (Inl Nama_jumlah_satuan_harus_diisi, s)
      else (let (item_id, s1) =
                  upsert_item e s name category unit qty min_stock rack_location expiry_date;
                (trx_code, s2) = generate_trx_code e s1 ''in'';
                s3 = add_transaction_record e s2 ''in'' (Some item_id) name qty unit None
                       (Some supplier) ''Single-item masuk'' trx_code trx_code expiry_date
            in (Inr trx_code, s3)))"

text \<open>One entry of \<open>st.session_state.in_multi\<close>.\<close>

record in_line =
  l_name :: string
  l_unit :: string
  l_quantity :: real
  l_category :: string
  l_min_stock :: real
  l_rack_location :: string
  l_expiry_date :: string

definition in_line_bad :: "in_line \<Rightarrow> bool" where
  "in_line_bad it = (l_name it = [] \<or> l_quantity it \<le> 0 \<or> l_unit it = [])"

text \<open>
  \<open>[idx + 1 for idx, it in enumerate(lines) if bad(it)]\<close>: the line numbers of the
  messages collected by the validation loops.
\<close>

definition bad_rows :: "('a \<Rightarrow> bool) \<Rightarrow> 'a list \<Rightarrow> nat list" where
  "bad_rows bad lines = map (\<lambda>(idx, it). idx + 1) (filter (\<lambda>(idx, it). bad it) (enumerate 0 lines))"

text \<open>
  The loop of lines 489-496: its body only converts the expiry text, so what it leaves
  behind are the loop variable \<open>it\<close> and \<open>exp\<close> of the last iteration.
\<close>

fun in_multi_loop :: "env \<Rightarrow> in_line list \<Rightarrow> in_line \<times> date option \<Rightarrow> in_line \<times> date option" where
  "in_multi_loop e [] acc = acc"
| "in_multi_loop e (it # rest) acc =
     in_multi_loop e rest
       (it, if l_expiry_date it \<noteq> [] then to_datetime e (l_expiry_date it) else None)"

text \<open>
  The batch form, from \<open>if submitted:\<close> on (lines 474-504). The calls of \<open>upsert_item\<close>
  and \<open>add_transaction_record\<close> stand after the loop, at the indentation of the loop
  header, so they run once, on the values the loop left. The list is not empty there, so
  the loop has run and both variables are bound.
\<close>

definition in_multi_submit ::
  "env \<Rightarrow> db \<Rightarrow> string \<Rightarrow> string \<Rightarrow> in_line list \<Rightarrow> (error + string) \<times> db" where
  "in_multi_submit e s supplier note in_multi =
     (case in_multi of
        [] \<Rightarrow> (Inl Tidak_ada_item, s)
      | first # rest \<Rightarrow>
          (let errors = bad_rows in_line_bad in_multi
           in if errors \<noteq> [] then (Inl (Baris errors), s)
              else (let (trx_code, s1) = generate_trx_code e s ''in'';
                        bundle = trx_code;
                        (it, exp) = in_multi_loop e in_multi (first, None);
                        (item_id, s2) =
                          upsert_item e s1 (l_name it) (l_category it) (l_unit it) (l_quantity it)
                            (l_min_stock it) (l_rack_location it) exp;
                        s3 = add_transaction_record e s2 ''in'' (Some item_id) (l_name it)
                               (l_quantity it) (l_unit it) None (Some supplier) note bundle
                               trx_code exp
                    in (Inr trx_code, s3))))"

subsection \<open>Submit handlers: Barang Keluar\<close>

definition out_single ::
  "env \<Rightarrow> db \<Rightarrow> string \<Rightarrow> string \<Rightarrow> real \<Rightarrow> string \<Rightarrow> string \<Rightarrow> (error + string) \<times> db" where
  "out_single e s name unit qty requester note =
     (if name = [] \<or> qty \<le> 0 \<or> unit = [] \<or> requester = []
      then (Inl Nama_jumlah_satuan_peminta_harus_diisi, s)
      else (case select_item s name unit of
              None \<Rightarrow> (Inl Item_tidak_ditemukan_di_inventory, s)
            | Some res \<Rightarrow>
                if or0 (it_quantity res) < qty
                then (Inl (Stok_tidak_cukup_diminta (it_quantity res) qty), s)
                else (case adjust_item_for_out e s name unit qty of
                        ((item_id, Some err), s1) \<Rightarrow> (Inl (Adjust_error err), s1)
                      | ((item_id, None), s1) \<Rightarrow>
                          (let (trx_code, s2) = generate_trx_code e s1 ''out'';
                               s3 = add_transaction_record e s2 ''out'' item_id name qty unit
                                      (Some requester) None note trx_code trx_code None
                           in (Inr trx_code, s3)))))"

text \<open>One entry of \<open>st.session_state.out_multi\<close>.\<close>

record out_line =
  o_name :: string
  o_unit :: string
  o_quantity :: real
  o_note :: string

definition out_line_bad :: "out_line \<Rightarrow> bool" where
  "out_line_bad it = (o_name it = [] \<or> o_quantity it \<le> 0 \<or> o_unit it = [])"

text \<open>The pre-flight pass (lines 589-596): every line is read against the stored table.\<close>

fun insufficient_of :: "db \<Rightarrow> out_line list \<Rightarrow> (string \<times> out_error) list" where
  "insufficient_of s [] = []"
| "insufficient_of s (it # rest) =
     (case select_item s (o_name it) (o_unit it) of
        None \<Rightarrow> [(o_name it, Item_tidak_ditemukan)]
      | Some res \<Rightarrow>
          if or0 (it_quantity res) < o_quantity it
          then [(o_name it, Stok_tidak_cukup (or0 (it_quantity res)))] else [])
     @ insufficient_of s rest"

text \<open>The apply loop (lines 603-605): the error of \<open>adjust_item_for_out\<close> is discarded.\<close>

fun out_multi_loop :: "env \<Rightarrow> string \<Rightarrow> string \<Rightarrow> out_line list \<Rightarrow> db \<Rightarrow> db" where
  "out_multi_loop e requester trx_code [] s = s"
| "out_multi_loop e requester trx_code (it # rest) s =
     (let ((item_id, _), s1) = adjust_item_for_out e s (o_name it) (o_unit it) (o_quantity it);
          s2 = add_transaction_record e s1 ''out'' item_id (o_name it) (o_quantity it) (o_unit it)
                 (Some requester) None (o_note it) trx_code trx_code None
      in out_multi_loop e requester trx_code rest s2)"

text \<open>
  The handler of the batch form, from \<open>if submitted:\<close> on (lines 575-608). It is reached
  through \<open>out_multi_form\<close> below.
\<close>

definition out_multi_submit ::
  "env \<Rightarrow> db \<Rightarrow> string \<Rightarrow> out_line list \<Rightarrow> (error + string) \<times> db" where
  "out_multi_submit e s requester out_multi =
     (if out_multi = [] then (Inl Tidak_ada_item, s)
      else if requester = [] then (Inl Nama_peminta_harus_diisi, s)
      else (let bad = bad_rows out_line_bad out_multi
            in if bad \<noteq> [] then (Inl (Baris bad), s)
               else (let insufficient = insufficient_of s out_multi
                     in if insufficient \<noteq> [] then (Inl (Transaksi_ditolak insufficient), s)
                        else (let (trx_code, s1) = generate_trx_code e s ''out''
                              in (Inr trx_code, out_multi_loop e requester trx_code out_multi s1)))))"

text \<open>
  The form in front of that handler (lines 553-574), with its submit button pressed. Its
  loop draws one row of widgets for each entry of the list and in every row calls
  \<open>st.button\<close> (line 569) inside \<open>st.form\<close>. Streamlit refuses a button inside a
  form and raises \<open>StreamlitAPIException\<close>; the inbound form keeps its delete buttons
  outside the form for that reason (comment at line 462). So the first row raises, before
  line 573 stores the values of the row and before line 574 draws the submit button. With
  an empty list the loop does not run and the handler is entered.
\<close>

datatype streamlit_error = StreamlitAPIException

fun out_multi_rows :: "out_line list \<Rightarrow> streamlit_error + unit" where
  "out_multi_rows [] = Inr ()"
| "out_multi_rows (it # rest) = Inl StreamlitAPIException"

definition out_multi_form ::
  "env \<Rightarrow> db \<Rightarrow> string \<Rightarrow> out_line list \<Rightarrow> (streamlit_error + (error + string)) \<times> db" where
  "out_multi_form e s requester out_multi =
     (case out_multi_rows out_multi of
        Inl exn \<Rightarrow> (Inl exn, s)
      | Inr _ \<Rightarrow> (let (res, s1) = out_multi_submit e s requester out_multi in (Inr res, s1)))"

subsection \<open>Load: \<open>load_inventory_from_excel\<close>\<close>

text \<open>
  A numeric cell of the sheet as \<open>pd.isna\<close> and \<open>float\<close> see it: missing, a number, or
  content on which \<open>float\<close> raises \<open>ValueError\<close>.
\<close>

datatype cell = NaN | Num real | Not_a_number

text \<open>
  A row of the frame. Text cells hold what \<open>str(row[...])\<close> returns; \<open>x_expiry_date\<close>
  holds the value lines 215-225 compute from the cell (\<open>None\<close> when the cell is missing
  or cannot be parsed). A column the sheet does not have is never read.
\<close>

record excel_row =
  x_name :: string
  x_quantity :: cell
  x_unit :: string
  x_category :: string
  x_min_stock :: cell
  x_rack_location :: string
  x_expiry_date :: "date option"

record dataframe =
  columns :: "string list"
  rows :: "excel_row list"

datatype import_error = Excel_harus_memiliki_kolom | Could_not_convert_to_float

definition float_or_0 :: "cell \<Rightarrow> import_error + real" where
  "float_or_0 c =
     (case c of NaN \<Rightarrow> Inr 0 | Num x \<Rightarrow> Inr x | Not_a_number \<Rightarrow> Inl Could_not_convert_to_float)"

text \<open>The loop over \<open>df.iterrows()\<close>; an exception leaves the rows already written.\<close>

fun import_rows ::
  "env \<Rightarrow> string list \<Rightarrow> excel_row list \<Rightarrow> nat \<Rightarrow> db \<Rightarrow> (import_error + nat) \<times> db" where
  "import_rows e df_columns [] inserted s = (Inr inserted, s)"
| "import_rows e df_columns (row # rest) inserted s =
     (let name = strip (x_name row)
      in case float_or_0 (x_quantity row) of
           Inl err \<Rightarrow> (Inl err, s)
         | Inr quantity \<Rightarrow>
             (let unit = strip (x_unit row);
                  category = (if ''category'' \<in> set df_columns then strip (x_category row) else [])
              in case (if ''min_stock'' \<in> set df_columns then float_or_0 (x_min_stock row) else Inr 0) of
                   Inl err \<Rightarrow> (Inl err, s)
                 | Inr min_stock \<Rightarrow>
                     (let rack_location =
                            (if ''rack_location'' \<in> set df_columns then strip (x_rack_location row)
                             else []);
                          expiry_date =
                            (if ''expiry_date'' \<in> set df_columns then x_expiry_date row else None);
                          (item_id, s1) =
                            upsert_item e s name category unit quantity min_stock rack_location
                              expiry_date
                      in import_rows e df_columns rest (inserted + 1) s1)))"

definition load_inventory_from_excel ::
  "env \<Rightarrow> db \<Rightarrow> dataframe \<Rightarrow> (import_error + nat) \<times> db" where
  "load_inventory_from_excel e s df =
     (let df_columns = map lower (columns df)
      in if list_ex (\<lambda>r. r \<notin> set df_columns) [''name'', ''quantity'', ''unit'']
         then (Inl Excel_harus_memiliki_kolom, s)
         else import_rows e df_columns (rows df) 0 s)"

subsection \<open>Pengaturan: reset\<close>

text \<open>Lines 699-701: three deletes, each keeping only the rows its \<open>neq\<close> filter excludes.\<close>

definition reset_db :: "db \<Rightarrow> db" where
  "reset_db s =
     (let s1 = s\<lparr>transactions := filter (\<lambda>t. \<not> tx_id t \<noteq> - 1) (transactions s)\<rparr>;
          s2 = s1\<lparr>items := filter (\<lambda>i. \<not> it_id i \<noteq> - 1) (items s1)\<rparr>
      in s2\<lparr>users := filter (\<lambda>u. \<not> username u \<noteq> ''keep_admin'') (users s2)\<rparr>)"

subsection \<open>Reporting: \<open>totals_for_period\<close>\<close>

text \<open>The proleptic Gregorian calendar of Python's \<open>datetime\<close>.\<close>

definition is_leap :: "nat \<Rightarrow> bool" where
  "is_leap y = (y mod 4 = 0 \<and> (y mod 100 \<noteq> 0 \<or> y mod 400 = 0))"

definition days_before_year :: "nat \<Rightarrow> nat" where
  "days_before_year y = (let p = y - 1 in p * 365 + p div 4 - p div 100 + p div 400)"

definition days_before_month :: "nat \<Rightarrow> nat \<Rightarrow> nat" where
  "days_before_month y m =
     sum_list (take (m - 1) [31, 28, 31, 30, 31, 30, 31, 31, 30, 31, 30, 31]) +
     (if 2 < m \<and> is_leap y then 1 else 0)"

text \<open>Day of the year, from 1.\<close>

definition yday :: "date \<Rightarrow> nat" where
  "yday d = days_before_month (year d) (month d) + day d"

definition toordinal :: "date \<Rightarrow> nat" where
  "toordinal d = days_before_year (year d) + yday d"

text \<open>Monday is 0.\<close>

definition weekday :: "date \<Rightarrow> nat" where
  "weekday d = (toordinal d + 6) mod 7"

text \<open>
  \<open>%W\<close> of strftime: the week of the year with Monday as its first day; the days before
  the first Monday of the year are in week 0.
\<close>

definition week_W :: "date \<Rightarrow> nat" where
  "week_W d = (yday d + 6 - weekday d) div 7"

definition strftime_Y_W :: "date \<Rightarrow> string" where
  "strftime_Y_W d = pad4 (year d) @ ''-'' @ pad2 (week_W d)"

definition strftime_Y_m :: "date \<Rightarrow> string" where
  "strftime_Y_m d = pad4 (year d) @ ''-'' @ pad2 (month d)"

text \<open>The columns of the transactions frame that \<open>totals_for_period\<close> reads.\<close>

record mov =
  m_date :: date
  m_name :: string
  m_unit :: string
  m_trx_type :: string
  m_quantity :: real

text \<open>
  \<open>df.groupby(keys)['quantity'].sum().reset_index()\<close>: one row for each key that occurs,
  in ascending key order, with the sum of the quantities of its rows.
\<close>

definition groupby_sum :: "('k::linorder \<times> real) list \<Rightarrow> ('k \<times> real) list" where
  "groupby_sum kvs =
     map (\<lambda>k. (k, sum_list (map snd (filter (\<lambda>kv. fst kv = k) kvs))))
       (sort (remdups (map fst kvs)))"

definition week_key :: "mov \<Rightarrow> string \<times> string \<times> string \<times> string" where
  "week_key r = (strftime_Y_W (m_date r), m_name r, m_unit r, m_trx_type r)"

definition month_key :: "mov \<Rightarrow> string \<times> string \<times> string \<times> string" where
  "month_key r = (strftime_Y_m (m_date r), m_name r, m_unit r, m_trx_type r)"

definition totals_for_period ::
  "mov list \<Rightarrow> string \<Rightarrow> ((string \<times> string \<times> string \<times> string) \<times> real) list" where
  "totals_for_period df period =
     (if df = [] then []
      else if period = ''W'' then groupby_sum (map (\<lambda>r. (week_key r, m_quantity r)) df)
      else if period = ''M'' then groupby_sum (map (\<lambda>r. (month_key r, m_quantity r)) df)
      else [])"

text \<open>
  The week bucket in the specification's words: the ISO 8601 week number, whose week 1
  is the week (Monday to Sunday) holding the year's first Thursday. The result is the ISO
  year and the week number.
\<close>

definition iso_week1_monday :: "nat \<Rightarrow> int" where
  "iso_week1_monday y =
     (let firstday = toordinal \<lparr>year = y, month = 1, day = 1\<rparr>;
          firstweekday = (firstday + 6) mod 7;
          week1monday = int firstday - int firstweekday
      in if 3 < firstweekday then week1monday + 7 else week1monday)"

definition spec_iso_week :: "date \<Rightarrow> nat \<times> nat" where
  "spec_iso_week d =
     (let today = int (toordinal d);
          week = (today - iso_week1_monday (year d)) div 7
      in if week < 0
         then (year d - 1, nat ((today - iso_week1_monday (year d - 1)) div 7 + 1))
         else if 52 \<le> week \<and> iso_week1_monday (year d + 1) \<le> today then (year d + 1, 1)
         else (year d, nat (week + 1)))"

text \<open>
  Dates whose year prints in four digits, and the rows that fall into the group of a row:
  the same calendar year and \<open>%W\<close> week (resp. month), name, unit and movement type.
\<close>

definition valid_date :: "date \<Rightarrow> bool" where
  "valid_date d =
     (1000 \<le> year d \<and> year d < 10000 \<and> 1 \<le> month d \<and> month d \<le> 12 \<and>
      1 \<le> day d \<and> day d \<le> 31)"

definition same_week_group :: "mov \<Rightarrow> mov \<Rightarrow> bool" where
  "same_week_group r r' =
     (year (m_date r') = year (m_date r) \<and> week_W (m_date r') = week_W (m_date r) \<and>
      m_name r' = m_name r \<and> m_unit r' = m_unit r \<and> m_trx_type r' = m_trx_type r)"

definition same_month_group :: "mov \<Rightarrow> mov \<Rightarrow> bool" where
  "same_month_group r r' =
     (year (m_date r') = year (m_date r) \<and> month (m_date r') = month (m_date r) \<and>
      m_name r' = m_name r \<and> m_unit r' = m_unit r \<and> m_trx_type r' = m_trx_type r)"

subsection \<open>The log against the stock\<close>




definition quantities_nonneg :: "db \<Rightarrow> bool" where
  "quantities_nonneg s = list_all (\<lambda>i. 0 \<le> or0 (it_quantity i)) (items s)"


subsection \<open>Concrete inputs\<close>

text \<open>
  A clock that advances by one second per reading, a constant random draw and a date
  parser that rejects every text; the empty database; and the store of the
  specification's scenario after its first outbound movement (Gloves, box, 6 in stock).
\<close>

definition env0 :: env where
  "env0 =
     \<lparr>clock = (\<lambda>k. \<lparr>dt_date = \<lparr>year = 2025, month = 1, day = 1\<rparr>, hour = 9, minute = 0, second = k\<rparr>),
      rand = (\<lambda>k. 23), to_datetime = (\<lambda>s. None)\<rparr>"

definition db_empty :: db where
  "db_empty = \<lparr>items = [], transactions = [], users = [], items_seq = 1, transactions_seq = 1,
               ticks = 0, draws = 0\<rparr>"

definition gloves :: item where
  "gloves = \<lparr>it_id = 1, it_name = ''Gloves'', it_category = '''', it_unit = ''box'',
             it_quantity = Some 6, it_min_stock = 5, it_rack_location = '''', it_expiry_date = None,
             it_created_at = clock env0 0, it_updated_at = clock env0 0\<rparr>"

definition db_gloves :: db where
  "db_gloves = db_empty\<lparr>items := [gloves], items_seq := 2\<rparr>"

definition db_accounts :: db where
  "db_accounts = db_gloves\<lparr>users := [\<lparr>username = ''admin'', password_hash = ''x''\<rparr>,
                                      \<lparr>username = ''alice'', password_hash = ''y''\<rparr>]\<rparr>"

definition mask_line :: in_line where
  "mask_line = \<lparr>l_name = ''Mask'', l_unit = ''box'', l_quantity = 5, l_category = '''',
                l_min_stock = 0, l_rack_location = '''', l_expiry_date = ''''\<rparr>"

definition nameless_line :: in_line where
  "nameless_line = mask_line\<lparr>l_name := '''', l_quantity := 3\<rparr>"

definition gloves_line :: in_line where
  "gloves_line = mask_line\<lparr>l_name := ''Gloves'', l_quantity := 3\<rparr>"

definition out_gloves :: "real \<Rightarrow> out_line" where
  "out_gloves q = \<lparr>o_name = ''Gloves'', o_unit = ''box'', o_quantity = q, o_note = ''''\<rparr>"

text \<open>The entry that the button \<open>Tambah Item Keluar\<close> appends (line 552).\<close>

definition blank_out_line :: out_line where
  "blank_out_line = \<lparr>o_name = '''', o_unit = '''', o_quantity = 0, o_note = ''''\<rparr>"

definition sheet :: "real \<Rightarrow> dataframe" where
  "sheet q =
     \<lparr>columns = [''name'', ''quantity'', ''unit''],
      rows = [\<lparr>x_name = ''Gloves'', x_quantity = Num q, x_unit = ''box'', x_category = '''',
               x_min_stock = NaN, x_rack_location = '''', x_expiry_date = None\<rparr>]\<rparr>"

definition mov_on :: "date \<Rightarrow> mov" where
  "mov_on d = \<lparr>m_date = d, m_name = ''Gloves'', m_unit = ''box'', m_trx_type = ''out'',
               m_quantity = 1\<rparr>"

section \<open>Properties\<close>

subsection \<open>Lookups and updates\<close>

lemma find_map_same:
  "(\<And>x. P (g x) = P x) \<Longrightarrow> find P (map g xs) = map_option g (find P xs)"
  by (induction xs) auto

lemma find_append_new: "find P xs = None \<Longrightarrow> P r \<Longrightarrow> find P (xs @ [r]) = Some r"
  by (induction xs) (auto split: if_splits)

lemma filter_enumerate_empty:
  "filter (\<lambda>(idx, it). bad it) (enumerate n lines) = [] \<longleftrightarrow> \<not> list_ex bad lines"
  by (induction lines arbitrary: n) auto

lemma bad_rows_empty: "bad_rows bad lines = [] \<longleftrightarrow> \<not> list_ex bad lines"
  by (simp add: bad_rows_def filter_enumerate_empty)

lemma insufficient_of_empty:
  "insufficient_of s lines = [] \<longleftrightarrow>
   \<not> list_ex (\<lambda>it. case select_item s (o_name it) (o_unit it) of
                      None \<Rightarrow> True
                    | Some res \<Rightarrow> or0 (it_quantity res) < o_quantity it) lines"
  by (induction lines) (auto split: option.splits)

subsection \<open>Facts about the concrete inputs\<close>

lemma strip_gloves: "strip ''Gloves'' = ''Gloves''"
  by (simp add: strip_def is_space_def)

lemma strip_box: "strip ''box'' = ''box''"
  by (simp add: strip_def is_space_def)

lemma lower_headers:
  "lower ''name'' = ''name''" "lower ''quantity'' = ''quantity''" "lower ''unit'' = ''unit''"
  by (simp_all add: lower_def lower_char_def less_eq_char_def)

lemma select_gloves: "select_item db_gloves ''Gloves'' ''box'' = Some gloves"
  by (simp add: select_item_def db_gloves_def db_empty_def gloves_def)

lemma quantity_gloves: "it_quantity gloves = Some 6"
  by (simp add: gloves_def)

subsection \<open>Batch inbound\<close>

text \<open>
  Claim C1 says that a batch of \<open>n\<close> valid inbound lines is applied line by line: \<open>n\<close>
  upserts and \<open>n\<close> transaction rows under one code, success being reported after the
  last of them. The handler does not do that. On the empty database, the batch of the two
  valid lines (Mask, box, 5) and (Gloves, box, 3) is accepted (the result is a code, not
  an error), and afterwards the items table holds Gloves only and the log holds one row,
  for Gloves: the line for Mask was neither upserted nor logged.
\<close>

theorem in_multi_persists_last_line_only:
  "\<not> list_ex in_line_bad [mask_line, gloves_line] \<and>
   isl (fst (in_multi_submit env0 db_empty ''Acme'' '''' [mask_line, gloves_line])) = False \<and>
   map it_name (items (snd (in_multi_submit env0 db_empty ''Acme'' '''' [mask_line, gloves_line]))) =
     [''Gloves''] \<and>
   map tx_name (transactions (snd (in_multi_submit env0 db_empty ''Acme'' '''' [mask_line, gloves_line]))) =
     [''Gloves'']"
  by (simp add: in_multi_submit_def bad_rows_def in_line_bad_def mask_line_def gloves_line_def
      generate_trx_code_def add_transaction_record_def upsert_item_def now_def randint_100_999_def
      Let_def select_item_def db_empty_def strip_gloves)

subsection \<open>Rejected batches\<close>

text \<open>
  Claim C2: a batch with a line that fails validation (empty name, empty unit or quantity
  not above 0) is rejected and the database is left exactly as it was, for inbound and for
  outbound batches; so is an outbound batch with a line whose item is missing or whose
  stored quantity is below the quantity asked for. The whole state is unchanged: no item
  row, no transaction row, no sequence and no clock reading.
\<close>

theorem batch_rejected_whole:
  "(list_ex in_line_bad lines \<longrightarrow>
      snd (in_multi_submit e s supplier note lines) = s \<and>
      isl (fst (in_multi_submit e s supplier note lines))) \<and>
   (list_ex out_line_bad olines \<or>
    list_ex (\<lambda>it. case select_item s (o_name it) (o_unit it) of
                     None \<Rightarrow> True
                   | Some res \<Rightarrow> or0 (it_quantity res) < o_quantity it) olines \<longrightarrow>
      snd (out_multi_submit e s requester olines) = s \<and>
      isl (fst (out_multi_submit e s requester olines)))"
proof -
  have "snd (in_multi_submit e s supplier note lines) = s \<and>
        isl (fst (in_multi_submit e s supplier note lines))"
    if "list_ex in_line_bad lines"
    using that by (cases lines) (simp_all add: in_multi_submit_def bad_rows_empty Let_def)
  moreover have "snd (out_multi_submit e s requester olines) = s \<and>
        isl (fst (out_multi_submit e s requester olines))"
    if "list_ex out_line_bad olines \<or>
        list_ex (\<lambda>it. case select_item s (o_name it) (o_unit it) of
                     None \<Rightarrow> True
                   | Some res \<Rightarrow> or0 (it_quantity res) < o_quantity it) olines"
    using that by (auto simp: out_multi_submit_def bad_rows_empty insufficient_of_empty Let_def)
  ultimately show ?thesis by blast
qed

theorem batch_rejected_whole_witness:
  "list_ex in_line_bad [mask_line, nameless_line] \<and>
   in_multi_submit env0 db_gloves ''Acme'' '''' [mask_line, nameless_line] = (Inl (Baris [2]), db_gloves) \<and>
   list_ex (\<lambda>it. case select_item db_gloves (o_name it) (o_unit it) of
                    None \<Rightarrow> True
                  | Some res \<Rightarrow> or0 (it_quantity res) < o_quantity it) [out_gloves 2, out_gloves 7] \<and>
   snd (out_multi_submit env0 db_gloves ''Alice'' [out_gloves 2, out_gloves 7]) = db_gloves \<and>
   isl (fst (out_multi_submit env0 db_gloves ''Alice'' [out_gloves 2, out_gloves 7]))"
proof -
  have a: "list_ex in_line_bad [mask_line, nameless_line]"
    by (simp add: in_line_bad_def mask_line_def nameless_line_def)
  have b: "list_ex (\<lambda>it. case select_item db_gloves (o_name it) (o_unit it) of
                    None \<Rightarrow> True
                  | Some res \<Rightarrow> or0 (it_quantity res) < o_quantity it) [out_gloves 2, out_gloves 7]"
    by (simp add: out_gloves_def select_gloves quantity_gloves or0_def)
  have c: "in_multi_submit env0 db_gloves ''Acme'' '''' [mask_line, nameless_line] =
           (Inl (Baris [2]), db_gloves)"
    by (simp add: in_multi_submit_def bad_rows_def in_line_bad_def mask_line_def nameless_line_def)
  show ?thesis
    using a b c
      batch_rejected_whole [of "[mask_line, nameless_line]" env0 db_gloves "''Acme''" "''''"
        "[out_gloves 2, out_gloves 7]" "''Alice''"]
    by simp
qed

subsection \<open>Single outbound\<close>

text \<open>
  Claim C3: when the item exists and its stored quantity is below the quantity asked for,
  \<open>adjust_item_for_out\<close> returns no id and the insufficient-stock error and writes
  nothing; the single-item form ends in an error with the database unchanged (no
  quantity changed, no row logged), and for a complete form (name, unit, requester
  filled in, quantity above 0) that error is the insufficient-stock one.
\<close>

theorem out_short_stock_rejected:
  assumes "select_item s name unit = Some item" and "or0 (it_quantity item) < qty"
  shows "adjust_item_for_out e s name unit qty =
           ((None, Some (Stok_tidak_cukup (or0 (it_quantity item)))), s) \<and>
         snd (out_single e s name unit qty requester note) = s \<and>
         isl (fst (out_single e s name unit qty requester note)) \<and>
         (name \<noteq> [] \<and> unit \<noteq> [] \<and> 0 < qty \<and> requester \<noteq> [] \<longrightarrow>
            out_single e s name unit qty requester note =
              (Inl (Stok_tidak_cukup_diminta (it_quantity item) qty), s))"
  using assms by (simp add: adjust_item_for_out_def out_single_def)

theorem out_short_stock_rejected_witness:
  "select_item db_gloves ''Gloves'' ''box'' = Some gloves \<and> or0 (it_quantity gloves) < 10 \<and>
   adjust_item_for_out env0 db_gloves ''Gloves'' ''box'' 10 = ((None, Some (Stok_tidak_cukup 6)), db_gloves) \<and>
   out_single env0 db_gloves ''Gloves'' ''box'' 10 ''Bob'' '''' =
     (Inl (Stok_tidak_cukup_diminta (Some 6) 10), db_gloves)"
proof -
  have b: "or0 (it_quantity gloves) < 10"
    by (simp add: quantity_gloves or0_def)
  show ?thesis
    using select_gloves b out_short_stock_rejected [OF select_gloves b, of env0 "''Bob''" "''''"]
    by (simp add: quantity_gloves or0_def)
qed

text \<open>
  Claim C5: for a complete single-item outbound form on an existing item whose stored
  quantity is at least the quantity asked for, the form succeeds; afterwards the item
  found under (name, unit) is the same row with the quantity reduced by the request and
  \<open>updated_at\<close> set to the clock reading of the decrement, and the log has grown by
  exactly one row, of type \<open>out\<close>, for that item and that quantity.
\<close>

theorem out_single_subtracts:
  assumes "name \<noteq> []" and "unit \<noteq> []" and "0 < qty" and "requester \<noteq> []"
    and "select_item s name unit = Some item" and "qty \<le> or0 (it_quantity item)"
  shows "\<exists>code s' t item'.
           out_single e s name unit qty requester note = (Inr code, s') \<and>
           select_item s' name unit = Some item' \<and>
           it_id item' = it_id item \<and>
           it_quantity item' = Some (or0 (it_quantity item) - qty) \<and>
           it_updated_at item' = clock e (ticks s) \<and>
           transactions s' = transactions s @ [t] \<and>
           tx_trx_type t = ''out'' \<and> tx_quantity t = qty \<and> tx_item_id t = Some (it_id item) \<and>
           tx_name t = name \<and> tx_unit t = unit \<and> tx_trx_code t = code"
  using assms
  by (simp add: out_single_def adjust_item_for_out_def generate_trx_code_def add_transaction_record_def
        now_def randint_100_999_def Let_def select_item_def update_items_def find_map_same)

theorem out_single_subtracts_witness:
  "''Gloves'' \<noteq> [] \<and> ''box'' \<noteq> [] \<and> (0::real) < 4 \<and> ''Alice'' \<noteq> [] \<and>
   select_item db_gloves ''Gloves'' ''box'' = Some gloves \<and> 4 \<le> or0 (it_quantity gloves) \<and>
   (\<exists>code s' t item'.
      out_single env0 db_gloves ''Gloves'' ''box'' 4 ''Alice'' '''' = (Inr code, s') \<and>
      select_item s' ''Gloves'' ''box'' = Some item' \<and> it_quantity item' = Some 2 \<and>
      it_updated_at item' = clock env0 0 \<and>
      transactions s' = transactions db_gloves @ [t] \<and> tx_trx_type t = ''out'' \<and> tx_quantity t = 4)"
proof -
  have b: "4 \<le> or0 (it_quantity gloves)" by (simp add: quantity_gloves or0_def)
  have h: "''Gloves'' \<noteq> []" "''box'' \<noteq> []" "(0::real) < 4" "''Alice'' \<noteq> []" by simp_all
  have t0: "ticks db_gloves = 0" by (simp add: db_gloves_def db_empty_def)
  from out_single_subtracts [OF h select_gloves b, of env0 "''''"]
  obtain code s' t item' where
    "out_single env0 db_gloves ''Gloves'' ''box'' 4 ''Alice'' '''' = (Inr code, s')"
    "select_item s' ''Gloves'' ''box'' = Some item'" "it_quantity item' = Some 2"
    "it_updated_at item' = clock env0 0"
    "transactions s' = transactions db_gloves @ [t]" "tx_trx_type t = ''out''" "tx_quantity t = 4"
    by (auto simp: quantity_gloves or0_def t0)
  then have "\<exists>code s' t item'.
      out_single env0 db_gloves ''Gloves'' ''box'' 4 ''Alice'' '''' = (Inr code, s') \<and>
      select_item s' ''Gloves'' ''box'' = Some item' \<and> it_quantity item' = Some 2 \<and>
      it_updated_at item' = clock env0 0 \<and>
      transactions s' = transactions db_gloves @ [t] \<and> tx_trx_type t = ''out'' \<and> tx_quantity t = 4"
    by blast
  then show ?thesis using select_gloves b by simp
qed

subsection \<open>Single inbound\<close>

text \<open>
  Claim C4: a complete single-item inbound form (name and unit filled in, quantity above
  0) succeeds and appends exactly one row of type \<open>in\<close> with that quantity, which refers
  to the item found afterwards under (name, unit). If the item existed, it is the same
  row with the quantity raised by the request (and no row was added to the table); if
  not, it is a new last row whose quantity is the request. The item is matched as
  \<open>upsert_item\<close> matches it, by the name with surrounding white space stripped.
\<close>

theorem in_single_adds:
  assumes "name \<noteq> []" and "unit \<noteq> []" and "0 < qty"
  shows "\<exists>code s' t item'.
           in_single e s name unit qty category min_stock supplier rack_location expiry_date =
             (Inr code, s') \<and>
           transactions s' = transactions s @ [t] \<and>
           tx_trx_type t = ''in'' \<and> tx_quantity t = qty \<and> tx_item_id t = Some (it_id item') \<and>
           tx_trx_code t = code \<and> tx_bundle_code t = code \<and>
           select_item s' (strip name) unit = Some item' \<and>
           (case select_item s (strip name) unit of
              Some item \<Rightarrow>
                it_quantity item' = Some (or0 (it_quantity item) + qty) \<and>
                it_id item' = it_id item \<and> length (items s') = length (items s)
            | None \<Rightarrow> it_quantity item' = Some qty \<and> items s' = items s @ [item'])"
proof (cases "select_item s (strip name) unit")
  case None
  then show ?thesis
    using assms
    by (simp add: in_single_def upsert_item_def generate_trx_code_def add_transaction_record_def
        now_def randint_100_999_def Let_def select_item_def find_append_new)
next
  case (Some item)
  then show ?thesis
    using assms
    by (simp add: in_single_def upsert_item_def generate_trx_code_def add_transaction_record_def
        now_def randint_100_999_def Let_def select_item_def update_items_def find_map_same)
qed

theorem in_single_adds_witness:
  "''Gloves'' \<noteq> [] \<and> ''box'' \<noteq> [] \<and> (0::real) < 4 \<and>
   (\<exists>code s' t item'.
      in_single env0 db_gloves ''Gloves'' ''box'' 4 '''' 5 ''Acme'' '''' None = (Inr code, s') \<and>
      transactions s' = transactions db_gloves @ [t] \<and> tx_trx_type t = ''in'' \<and>
      tx_quantity t = 4 \<and> select_item s' ''Gloves'' ''box'' = Some item' \<and>
      it_quantity item' = Some 10)"
proof -
  have h: "''Gloves'' \<noteq> []" "''box'' \<noteq> []" "(0::real) < 4" by simp_all
  from in_single_adds [OF h, of env0 db_gloves "''''" 5 "''Acme''" "''''" None]
  obtain code s' t item' where
    "in_single env0 db_gloves ''Gloves'' ''box'' 4 '''' 5 ''Acme'' '''' None = (Inr code, s')"
    "transactions s' = transactions db_gloves @ [t]" "tx_trx_type t = ''in''" "tx_quantity t = 4"
    "select_item s' ''Gloves'' ''box'' = Some item'" "it_quantity item' = Some 10"
    by (auto simp: select_gloves quantity_gloves or0_def strip_gloves)
  then have "\<exists>code s' t item'.
      in_single env0 db_gloves ''Gloves'' ''box'' 4 '''' 5 ''Acme'' '''' None = (Inr code, s') \<and>
      transactions s' = transactions db_gloves @ [t] \<and> tx_trx_type t = ''in'' \<and>
      tx_quantity t = 4 \<and> select_item s' ''Gloves'' ''box'' = Some item' \<and>
      it_quantity item' = Some 10"
    by blast
  then show ?thesis by simp
qed

subsection \<open>Quantities below zero\<close>

text \<open>
  Claim C6 says that every operation, the bulk import among them, keeps every quantity at
  0 or above. The forms do reject a quantity that is not above 0, and the outbound paths
  refuse to go below the stock; \<open>load_inventory_from_excel\<close> passes the cell to
  \<open>upsert_item\<close> unchecked. On the empty database, where the invariant holds, importing
  the one-row sheet (Gloves, -5, box) succeeds and leaves Gloves with quantity -5.
\<close>

theorem import_negative_quantity:
  "quantities_nonneg db_empty \<and>
   fst (load_inventory_from_excel env0 db_empty (sheet (- 5))) = Inr 1 \<and>
   map it_quantity (items (snd (load_inventory_from_excel env0 db_empty (sheet (- 5))))) =
     [Some (- 5)] \<and>
   \<not> quantities_nonneg (snd (load_inventory_from_excel env0 db_empty (sheet (- 5))))"
  by (simp add: load_inventory_from_excel_def sheet_def lower_headers float_or_0_def
      upsert_item_def now_def Let_def select_item_def db_empty_def strip_gloves strip_box
      quantities_nonneg_def or0_def)

subsection \<open>The import and the log\<close>


subsection \<open>Batch outbound with a repeated item\<close>

text \<open>
  A list with at least one line never gets past the form: the first row raises and the
  store is the one given.
\<close>

lemma out_multi_form_nonempty:
  "out_multi \<noteq> [] \<Longrightarrow>
   out_multi_form e s requester out_multi = (Inl StreamlitAPIException, s)"
  by (cases out_multi) (simp_all add: out_multi_form_def)

text \<open>
  Claim C9: the batch the claim describes does not reach the pre-flight pass. The form
  that collects the lines calls \<open>st.button\<close> inside \<open>st.form\<close> for every line
  (line 569), so with any line in the list the page raises while the form is drawn: the
  submit button (line 574) is never created, the handler is not entered, and nothing is
  written. With Gloves at 6 in stock, two lines of 4 Gloves each raise and leave the
  store as it was, with no row appended; so do the two blank lines that two presses of
  \<open>Tambah Item Keluar\<close> put in the list. The handler is entered with the empty list
  only, where it reports that there is no item.
\<close>

theorem out_multi_form_raises:
  "select_item db_gloves ''Gloves'' ''box'' = Some gloves \<and> it_quantity gloves = Some 6 \<and>
   out_multi_form env0 db_gloves ''Alice'' [out_gloves 4, out_gloves 4] =
     (Inl StreamlitAPIException, db_gloves) \<and>
   out_multi_form env0 db_gloves ''Alice'' [blank_out_line, blank_out_line] =
     (Inl StreamlitAPIException, db_gloves) \<and>
   transactions db_gloves = [] \<and>
   out_multi_form env0 db_gloves ''Alice'' [] = (Inr (Inl Tidak_ada_item), db_gloves)"
proof -
  have "transactions db_gloves = []" by (simp add: db_gloves_def db_empty_def)
  then show ?thesis
    by (simp add: out_multi_form_def out_multi_submit_def select_gloves quantity_gloves)
qed

subsection \<open>Reset\<close>

text \<open>
  Claim C10: the reset does not stop at the transactions and the items. Of the users
  table it keeps only rows named \<open>keep_admin\<close>, so every account under another name is
  deleted with the rest; of the other two tables it keeps only rows whose id is -1.
\<close>

theorem reset_db_deletes_users:
  "users (reset_db s) = filter (\<lambda>u. username u = ''keep_admin'') (users s) \<and>
   items (reset_db s) = filter (\<lambda>i. it_id i = - 1) (items s) \<and>
   transactions (reset_db s) = filter (\<lambda>t. tx_id t = - 1) (transactions s) \<and>
   (\<forall>u \<in> set (users s). username u \<noteq> ''keep_admin'' \<longrightarrow> u \<notin> set (users (reset_db s)))"
  by (simp add: reset_db_def Let_def)

theorem reset_db_deletes_users_witness:
  "users db_accounts \<noteq> [] \<and> users (reset_db db_accounts) = [] \<and>
   items (reset_db db_accounts) = [] \<and> transactions (reset_db db_accounts) = []"
  using reset_db_deletes_users [of db_accounts]
  by (simp add: db_accounts_def db_gloves_def db_empty_def gloves_def)

subsection \<open>Totals by period\<close>

text \<open>
  Two dates print the same \<open>%Y-%W\<close> (resp. \<open>%Y-%m\<close>) text exactly when they agree on
  the calendar year and the week number (resp. the month): the zero-padded digits
  determine the numbers.
\<close>

lemma digit_char_eq: "digit_char n = digit_char m \<longleftrightarrow> n mod 10 = m mod 10"
proof
  assume "digit_char n = digit_char m"
  then have "(of_char (digit_char n) :: nat) = of_char (digit_char m)" by simp
  then have "(48 + n mod 10) mod 256 = (48 + m mod 10) mod 256"
    by (simp add: digit_char_def)
  moreover have "n mod 10 < 10" "m mod 10 < 10" by simp_all
  ultimately show "n mod 10 = m mod 10" by simp
next
  assume "n mod 10 = m mod 10"
  then show "digit_char n = digit_char m" by (simp add: digit_char_def)
qed

lemma pad2_eq:
  assumes "n < 100" and "m < 100"
  shows "pad2 n = pad2 m \<longleftrightarrow> n = m"
proof
  assume "pad2 n = pad2 m"
  then have a: "n div 10 mod 10 = m div 10 mod 10" and b: "n mod 10 = m mod 10"
    by (simp_all add: pad2_def digit_char_eq)
  from assms have "n div 10 < 10" "m div 10 < 10" by simp_all
  with a have "n div 10 = m div 10" by simp
  with b show "n = m" by (metis div_mult_mod_eq)
qed simp

lemma pad4_eq:
  assumes "n < 10000" and "m < 10000"
  shows "pad4 n = pad4 m \<longleftrightarrow> n = m"
proof
  assume "pad4 n = pad4 m"
  then have a: "n div 1000 mod 10 = m div 1000 mod 10"
    and b: "n div 100 mod 10 = m div 100 mod 10"
    and c: "n div 10 mod 10 = m div 10 mod 10"
    and d: "n mod 10 = m mod 10"
    by (simp_all add: pad4_def digit_char_eq)
  from assms have "n div 1000 < 10" "m div 1000 < 10" by simp_all
  with a have e: "n div 1000 = m div 1000" by simp
  have "n div 100 div 10 = n div 1000" "m div 100 div 10 = m div 1000"
    by (simp_all add: div_mult2_eq)
  with e b have f: "n div 100 = m div 100" by (metis div_mult_mod_eq)
  have "n div 10 div 10 = n div 100" "m div 10 div 10 = m div 100"
    by (simp_all add: div_mult2_eq)
  with f c have "n div 10 = m div 10" by (metis div_mult_mod_eq)
  with d show "n = m" by (metis div_mult_mod_eq)
qed simp

lemma sum_list_take_le: "sum_list (take k xs) \<le> sum_list (xs :: nat list)"
  by (metis append_take_drop_id le_add1 sum_list_append)

lemma days_before_month_le: "days_before_month y m \<le> 366"
proof -
  have "sum_list (take (m - 1) [31, 28, 31, 30, 31, 30, 31, 31, 30, 31, 30, 31 :: nat]) \<le>
        sum_list [31, 28, 31, 30, 31, 30, 31, 31, 30, 31, 30, 31]"
    by (rule sum_list_take_le)
  then show ?thesis by (simp add: days_before_month_def)
qed

lemma week_W_lt: "valid_date d \<Longrightarrow> week_W d < 100"
proof -
  assume v: "valid_date d"
  have "days_before_month (year d) (month d) \<le> 366" by (rule days_before_month_le)
  with v have "yday d \<le> 397" by (simp add: yday_def valid_date_def)
  then show ?thesis by (simp add: week_W_def)
qed

lemma strftime_Y_W_eq:
  "strftime_Y_W d' = strftime_Y_W d \<longleftrightarrow>
   pad4 (year d') = pad4 (year d) \<and> pad2 (week_W d') = pad2 (week_W d)"
  by (simp add: strftime_Y_W_def pad4_def pad2_def)

lemma strftime_Y_m_eq:
  "strftime_Y_m d' = strftime_Y_m d \<longleftrightarrow>
   pad4 (year d') = pad4 (year d) \<and> pad2 (month d') = pad2 (month d)"
  by (simp add: strftime_Y_m_def pad4_def pad2_def)

lemma week_key_eq:
  assumes "valid_date (m_date r)" and "valid_date (m_date r')"
  shows "week_key r' = week_key r \<longleftrightarrow> same_week_group r r'"
proof -
  have y: "year (m_date r) < 10000" "year (m_date r') < 10000"
    using assms by (simp_all add: valid_date_def)
  have w: "week_W (m_date r) < 100" "week_W (m_date r') < 100"
    using assms by (simp_all add: week_W_lt)
  show ?thesis
    by (simp add: week_key_def same_week_group_def strftime_Y_W_eq
        pad4_eq [OF y(2) y(1)] pad2_eq [OF w(2) w(1)])
qed

lemma month_key_eq:
  assumes "valid_date (m_date r)" and "valid_date (m_date r')"
  shows "month_key r' = month_key r \<longleftrightarrow> same_month_group r r'"
proof -
  have y: "year (m_date r) < 10000" "year (m_date r') < 10000"
    using assms by (simp_all add: valid_date_def)
  have w: "month (m_date r) < 100" "month (m_date r') < 100"
    using assms by (simp_all add: valid_date_def)
  show ?thesis
    by (simp add: month_key_def same_month_group_def strftime_Y_m_eq
        pad4_eq [OF y(2) y(1)] pad2_eq [OF w(2) w(1)])
qed

lemma groupby_sum_keys: "map fst (groupby_sum kvs) = sort (remdups (map fst kvs))"
  by (simp add: groupby_sum_def comp_def)

lemma filter_key_map:
  "map snd (filter (\<lambda>kv. fst kv = k) (map (\<lambda>r. (key r, q r)) df)) =
   map q (filter (\<lambda>r. key r = k) df)"
  by (induction df) auto

lemma groupby_sum_set:
  "set (groupby_sum (map (\<lambda>r. (key r, q r)) df)) =
   (\<lambda>r. (key r, sum_list (map q (filter (\<lambda>r'. key r' = key r) df)))) ` set df"
  by (auto simp: groupby_sum_def filter_key_map image_iff comp_def)

lemma filter_same_group:
  assumes "list_all P df" and "P r"
    and "\<And>r'. P r' \<Longrightarrow> key r' = key r \<longleftrightarrow> same r r'"
  shows "filter (\<lambda>r'. key r' = key r) df = filter (same r) df"
  using assms by (intro filter_cong) (auto simp: list_all_iff)

text \<open>
  Claim C8, the week bucket as the claim words it: the pair of year and ISO week number.
  \<open>totals_for_period\<close> formats the date with \<open>%Y-%W\<close>: the calendar year, and the week
  of that year counted from its first Monday, the days before it being week 0. Wednesday
  1 January 2025 lies in ISO week 1 of 2025, and the function puts it in the bucket
  \<open>2025-00\<close>. Monday 30 December 2024 lies in the same ISO week, and the function
  separates the two days: \<open>2024-53\<close> and \<open>2025-00\<close>.
\<close>

theorem week_bucket_is_not_iso_week:
  "week_W \<lparr>year = 2025, month = 1, day = 1\<rparr> = 0 \<and>
   spec_iso_week \<lparr>year = 2025, month = 1, day = 1\<rparr> = (2025, 1) \<and>
   map fst (totals_for_period [mov_on \<lparr>year = 2025, month = 1, day = 1\<rparr>] ''W'') =
     [(''2025-00'', ''Gloves'', ''box'', ''out'')] \<and>
   spec_iso_week \<lparr>year = 2024, month = 12, day = 30\<rparr> = (2025, 1) \<and>
   week_key (mov_on \<lparr>year = 2024, month = 12, day = 30\<rparr>) \<noteq>
     week_key (mov_on \<lparr>year = 2025, month = 1, day = 1\<rparr>)"
  by (simp add: week_W_def yday_def weekday_def toordinal_def days_before_year_def
      days_before_month_def is_leap_def spec_iso_week_def iso_week1_monday_def Let_def
      totals_for_period_def groupby_sum_def week_key_def strftime_Y_W_def mov_on_def
      pad4_def pad2_def digit_char_def char_of_def bit_0)

text \<open>
  Claim C8 as amended: for a non-empty sequence of movements with valid dates,
  \<open>totals_for_period\<close> returns one row for each group that occurs, in ascending key
  order, and the row carries the sum of the quantities of the group's movements. Two
  movements are in one group when they agree on the period bucket, the item name, the
  unit and the movement type. The week bucket is the calendar year together with the
  \<open>%W\<close> week number (weeks start on Monday, the days before the year's first Monday are
  week 0), printed \<open>YYYY-WW\<close>; the month bucket is the year and the month, printed
  \<open>YYYY-MM\<close>. The period is given to the function as \<open>W\<close> or \<open>M\<close>.
\<close>

theorem totals_for_period_groups:
  assumes "df \<noteq> []" and "list_all (\<lambda>r. valid_date (m_date r)) df"
  shows "sorted (map fst (totals_for_period df ''W'')) \<and>
         distinct (map fst (totals_for_period df ''W'')) \<and>
         set (totals_for_period df ''W'') =
           (\<lambda>r. (week_key r, sum_list (map m_quantity (filter (same_week_group r) df)))) ` set df \<and>
         sorted (map fst (totals_for_period df ''M'')) \<and>
         distinct (map fst (totals_for_period df ''M'')) \<and>
         set (totals_for_period df ''M'') =
           (\<lambda>r. (month_key r, sum_list (map m_quantity (filter (same_month_group r) df)))) ` set df"
proof -
  have w: "totals_for_period df ''W'' = groupby_sum (map (\<lambda>r. (week_key r, m_quantity r)) df)"
    and m: "totals_for_period df ''M'' = groupby_sum (map (\<lambda>r. (month_key r, m_quantity r)) df)"
    using assms(1) by (simp_all add: totals_for_period_def)
  have fw: "filter (\<lambda>r'. week_key r' = week_key r) df = filter (same_week_group r) df"
    if "r \<in> set df" for r
    using assms(2) that
    by (intro filter_cong) (auto simp: list_all_iff week_key_eq)
  have fm: "filter (\<lambda>r'. month_key r' = month_key r) df = filter (same_month_group r) df"
    if "r \<in> set df" for r
    using assms(2) that
    by (intro filter_cong) (auto simp: list_all_iff month_key_eq)
  have sw: "set (totals_for_period df ''W'') =
      (\<lambda>r. (week_key r, sum_list (map m_quantity (filter (same_week_group r) df)))) ` set df"
    unfolding w groupby_sum_set by (intro image_cong) (simp_all add: fw)
  have sm: "set (totals_for_period df ''M'') =
      (\<lambda>r. (month_key r, sum_list (map m_quantity (filter (same_month_group r) df)))) ` set df"
    unfolding m groupby_sum_set by (intro image_cong) (simp_all add: fm)
  show ?thesis
    using sw sm by (simp add: w m groupby_sum_keys)
qed

theorem totals_for_period_groups_witness:
  "[mov_on \<lparr>year = 2024, month = 12, day = 30\<rparr>, mov_on \<lparr>year = 2025, month = 1, day = 1\<rparr>] \<noteq> [] \<and>
   list_all (\<lambda>r. valid_date (m_date r))
     [mov_on \<lparr>year = 2024, month = 12, day = 30\<rparr>, mov_on \<lparr>year = 2025, month = 1, day = 1\<rparr>] \<and>
   set (totals_for_period
          [mov_on \<lparr>year = 2024, month = 12, day = 30\<rparr>, mov_on \<lparr>year = 2025, month = 1, day = 1\<rparr>]
          ''W'') =
     {((''2024-53'', ''Gloves'', ''box'', ''out''), 1), ((''2025-00'', ''Gloves'', ''box'', ''out''), 1)} \<and>
   set (totals_for_period
          [mov_on \<lparr>year = 2024, month = 12, day = 30\<rparr>, mov_on \<lparr>year = 2025, month = 1, day = 1\<rparr>]
          ''M'') =
     {((''2024-12'', ''Gloves'', ''box'', ''out''), 1), ((''2025-01'', ''Gloves'', ''box'', ''out''), 1)}"
proof -
  let ?a = "mov_on \<lparr>year = 2024, month = 12, day = 30\<rparr>"
  let ?b = "mov_on \<lparr>year = 2025, month = 1, day = 1\<rparr>"
  have ne: "[?a, ?b] \<noteq> []" by simp
  have v: "list_all (\<lambda>r. valid_date (m_date r)) [?a, ?b]"
    by (simp add: valid_date_def mov_on_def)
  have ka: "week_key ?a = (''2024-53'', ''Gloves'', ''box'', ''out'')"
    by (simp add: week_key_def strftime_Y_W_def mov_on_def week_W_def yday_def weekday_def
        toordinal_def days_before_year_def days_before_month_def is_leap_def
        pad4_def pad2_def digit_char_def char_of_def bit_0)
  have kb: "week_key ?b = (''2025-00'', ''Gloves'', ''box'', ''out'')"
    by (simp add: week_key_def strftime_Y_W_def mov_on_def week_W_def yday_def weekday_def
        toordinal_def days_before_year_def days_before_month_def is_leap_def
        pad4_def pad2_def digit_char_def char_of_def bit_0)
  have ma: "month_key ?a = (''2024-12'', ''Gloves'', ''box'', ''out'')"
    by (simp add: month_key_def strftime_Y_m_def mov_on_def
        pad4_def pad2_def digit_char_def char_of_def bit_0)
  have mb: "month_key ?b = (''2025-01'', ''Gloves'', ''box'', ''out'')"
    by (simp add: month_key_def strftime_Y_m_def mov_on_def
        pad4_def pad2_def digit_char_def char_of_def bit_0)
  have g: "same_week_group ?a ?a" "\<not> same_week_group ?a ?b"
    "\<not> same_week_group ?b ?a" "same_week_group ?b ?b"
    by (simp_all add: same_week_group_def mov_on_def)
  have h: "same_month_group ?a ?a" "\<not> same_month_group ?a ?b"
    "\<not> same_month_group ?b ?a" "same_month_group ?b ?b"
    by (simp_all add: same_month_group_def mov_on_def)
  have q: "m_quantity ?a = 1" "m_quantity ?b = 1" by (simp_all add: mov_on_def)
  from totals_for_period_groups [OF ne v]
  have "set (totals_for_period [?a, ?b] ''W'') =
          {((''2024-53'', ''Gloves'', ''box'', ''out''), 1), ((''2025-00'', ''Gloves'', ''box'', ''out''), 1)}"
    and "set (totals_for_period [?a, ?b] ''M'') =
          {((''2024-12'', ''Gloves'', ''box'', ''out''), 1), ((''2025-01'', ''Gloves'', ''box'', ''out''), 1)}"
    by (simp_all add: ka kb ma mb g h q del: One_nat_def)
  with ne v show ?thesis by simp
qed

end
